theory Spec2Isabelle
  imports Complex_Main
begin

section \<open>Configuration\<close>

text \<open>
  The options of \<^verbatim>\<open>config.ini\<close> that the photo pipeline of
  \<^verbatim>\<open>ExifPhotoSorter.py\<close> reads, each with the type its accessor
  (\<^verbatim>\<open>getboolean\<close>, \<^verbatim>\<open>getfloat\<close>, \<^verbatim>\<open>get\<close>) gives it.
  Python floats are idealised as reals.
\<close>

record config =
  copy_files :: bool
  sort_by_location :: bool
  sort_by_date :: bool
  group_by_country :: bool
  group_by_state :: bool
  group_by_city :: bool
  date_format :: string
  cache_distance_threshold :: real
  cache_geocoding_results :: bool
  use_exif_gps :: bool
  skip_duplicates :: bool
  duplicate_suffix :: string
  unsortable_folder :: string

text \<open>The defaults of \<^verbatim>\<open>load_config\<close> for these options.\<close>

definition default_config :: config where
  "default_config =
     \<lparr>copy_files = True, sort_by_location = True, sort_by_date = True,
      group_by_country = False, group_by_state = False, group_by_city = True,
      date_format = ''%Y-%m-%d'', cache_distance_threshold = 1,
      cache_geocoding_results = True, use_exif_gps = True,
      skip_duplicates = True, duplicate_suffix = ''_duplicate'',
      unsortable_folder = ''Unsortable''\<rparr>"

section \<open>Strings and paths of the Python library\<close>

text \<open>
  \<^verbatim>\<open>str(i)\<close> for a non-negative integer: its decimal digits, most significant first.
\<close>

definition digit_char :: "nat \<Rightarrow> char" where
  "digit_char n = ''0123456789'' ! n"

fun str_nat :: "nat \<Rightarrow> string" where
  "str_nat n = (if n < 10 then [digit_char n] else str_nat (n div 10) @ [digit_char (n mod 10)])"

declare str_nat.simps [simp del]

lemma lt10_cases: "(n::nat) < 10 \<Longrightarrow> n \<in> {0, 1, 2, 3, 4, 5, 6, 7, 8, 9}"
  by auto

lemma digit_char_inj: "a < 10 \<Longrightarrow> b < 10 \<Longrightarrow> digit_char a = digit_char b \<Longrightarrow> a = b"
  using lt10_cases [of a] lt10_cases [of b] by (auto simp: digit_char_def)

lemma digit_char_not_slash: "n < 10 \<Longrightarrow> digit_char n \<noteq> CHR ''/''"
  by (drule lt10_cases) (auto simp: digit_char_def)

lemma str_nat_nonempty: "str_nat n \<noteq> []"
  by (subst str_nat.simps) simp

lemma str_nat_length_ge2: "10 \<le> n \<Longrightarrow> 2 \<le> length (str_nat n)"
proof -
  assume "10 \<le> n"
  then have "str_nat n = str_nat (n div 10) @ [digit_char (n mod 10)]"
    by (subst str_nat.simps) simp
  moreover have "1 \<le> length (str_nat (n div 10))"
    using str_nat_nonempty [of "n div 10"] by (cases "str_nat (n div 10)") auto
  ultimately show ?thesis by simp
qed

lemma str_nat_inj: "str_nat a = str_nat b \<Longrightarrow> a = b"
proof (induction a arbitrary: b rule: str_nat.induct)
  case (1 n)
  show ?case
  proof (cases "n < 10")
    case True
    then have n: "str_nat n = [digit_char n]" by (subst str_nat.simps) simp
    show ?thesis
    proof (cases "b < 10")
      case True
      then have "str_nat b = [digit_char b]" by (subst str_nat.simps) simp
      with n "1.prems" have "digit_char n = digit_char b" by simp
      with \<open>n < 10\<close> True show ?thesis by (rule digit_char_inj)
    next
      case False
      then have "2 \<le> length (str_nat b)" by (simp add: str_nat_length_ge2)
      with n "1.prems" show ?thesis by simp
    qed
  next
    case False
    then have n: "str_nat n = str_nat (n div 10) @ [digit_char (n mod 10)]"
      by (subst str_nat.simps) simp
    show ?thesis
    proof (cases "b < 10")
      case True
      then have "str_nat b = [digit_char b]" by (subst str_nat.simps) simp
      moreover from False have "2 \<le> length (str_nat n)" by (simp add: str_nat_length_ge2)
      ultimately show ?thesis using "1.prems" by simp
    next
      case b: False
      then have "str_nat b = str_nat (b div 10) @ [digit_char (b mod 10)]"
        by (subst str_nat.simps) simp
      with n "1.prems" have e: "str_nat (n div 10) = str_nat (b div 10)"
        and d: "digit_char (n mod 10) = digit_char (b mod 10)" by simp_all
      from "1.IH" [OF False e] have "n div 10 = b div 10" .
      moreover from d have "n mod 10 = b mod 10"
        by (intro digit_char_inj) simp_all
      ultimately show ?thesis by (metis div_mult_mod_eq)
    qed
  qed
qed

lemma hd_str_nat_not_slash: "hd (str_nat n) \<noteq> CHR ''/''"
proof (induction n rule: str_nat.induct)
  case (1 n)
  show ?case
  proof (cases "n < 10")
    case True
    then have "str_nat n = [digit_char n]" by (subst str_nat.simps) simp
    with True show ?thesis by (simp add: digit_char_not_slash)
  next
    case False
    then have "str_nat n = str_nat (n div 10) @ [digit_char (n mod 10)]"
      by (subst str_nat.simps) simp
    with "1.IH" [OF False] str_nat_nonempty [of "n div 10"] show ?thesis by simp
  qed
qed

text \<open>
  \<^verbatim>\<open>os.path.join\<close>, \<^verbatim>\<open>os.path.basename\<close> and \<^verbatim>\<open>os.path.splitext\<close> as
  \<^verbatim>\<open>posixpath\<close> defines them (separator \<open>/\<close>): a second component that starts with
  the separator replaces the first; the extension starts at the last dot of the file
  name, unless only dots precede it. \<^verbatim>\<open>os.path.join(a, b, c)\<close> is
  \<open>path_join (path_join a b) c\<close>.
\<close>

definition path_join :: "string \<Rightarrow> string \<Rightarrow> string" where
  "path_join a b =
     (if take 1 b = ''/'' then b
      else if a = [] \<or> last a = CHR ''/'' then a @ b
      else a @ ''/'' @ b)"

definition basename :: "string \<Rightarrow> string" where
  "basename p = rev (takeWhile (\<lambda>c. c \<noteq> CHR ''/'') (rev p))"

definition splitext :: "string \<Rightarrow> string \<times> string" where
  "splitext p =
     (let fname_rev = takeWhile (\<lambda>c. c \<noteq> CHR ''/'') (rev p);
          dir = rev (dropWhile (\<lambda>c. c \<noteq> CHR ''/'') (rev p));
          ext_rev = takeWhile (\<lambda>c. c \<noteq> CHR ''.'') fname_rev;
          root_rev = drop 1 (dropWhile (\<lambda>c. c \<noteq> CHR ''.'') fname_rev)
      in if CHR ''.'' \<in> set fname_rev \<and> filter (\<lambda>c. c \<noteq> CHR ''.'') root_rev \<noteq> []
         then (dir @ rev root_rev, CHR ''.'' # rev ext_rev)
         else (p, []))"

section \<open>PhotoProcessor: placing a photo\<close>

text \<open>
  The candidate of the duplicate loop in \<^verbatim>\<open>_copy_photo\<close> and \<^verbatim>\<open>_move_photo\<close>:
  \<^verbatim>\<open>os.path.join(output_path, f"{base}{duplicate_suffix}{i}{ext}")\<close>.
\<close>

definition duplicate_path :: "string \<Rightarrow> string \<Rightarrow> string \<Rightarrow> string \<Rightarrow> nat \<Rightarrow> string" where
  "duplicate_path output_path base suffix ext i =
     path_join output_path (base @ suffix @ str_nat i @ ext)"

lemma duplicate_path_inj:
  assumes "duplicate_path out b s e i = duplicate_path out b s e j"
  shows "i = j"
proof -
  have hd_eq: "take 1 (b @ s @ str_nat i @ e) = ''/'' \<longleftrightarrow> take 1 (b @ s @ str_nat j @ e) = ''/''"
  proof (cases "b @ s")
    case Nil
    then have "b = []" "s = []" by simp_all
    moreover have "take 1 (str_nat k @ e) \<noteq> ''/''" for k
      using str_nat_nonempty [of k] hd_str_nat_not_slash [of k]
      by (cases "str_nat k") auto
    ultimately show ?thesis by simp
  next
    case (Cons c cs)
    have eq: "b @ s @ r = c # (cs @ r)" for r
    proof -
      have "b @ s @ r = (b @ s) @ r" by simp
      also have "\<dots> = c # (cs @ r)" by (simp only: Cons append_Cons)
      finally show ?thesis .
    qed
    show ?thesis by (subst eq, subst eq) simp
  qed
  from assms hd_eq have "b @ s @ str_nat i @ e = b @ s @ str_nat j @ e"
    unfolding duplicate_path_def path_join_def by (auto split: if_splits)
  then have "str_nat i = str_nat j" by simp
  then show ?thesis by (rule str_nat_inj)
qed

lemma finite_duplicate_indices:
  "finite {j. duplicate_path out b s e j \<in> set files}"
proof -
  have "inj (duplicate_path out b s e)"
    by (rule injI) (rule duplicate_path_inj)
  then have "finite (duplicate_path out b s e -` set files)"
    by (intro finite_vimageI) simp_all
  then show ?thesis by (simp add: vimage_def)
qed

text \<open>
  The loop \<^verbatim>\<open>while os.path.exists(candidate i): i += 1\<close> over a file system given by
  the list of the paths that exist. It ends because distinct indices give distinct
  candidates and only finitely many paths exist.
\<close>

function next_free_index :: "string list \<Rightarrow> string \<Rightarrow> string \<Rightarrow> string \<Rightarrow> string \<Rightarrow> nat \<Rightarrow> nat" where
  "next_free_index files output_path base suffix ext i =
     (if duplicate_path output_path base suffix ext i \<in> set files
      then next_free_index files output_path base suffix ext (i + 1)
      else i)"
  by pat_completeness auto
termination
proof (relation "measure (\<lambda>(files, out, b, s, e, i). card {j. i \<le> j \<and> duplicate_path out b s e j \<in> set files})")
  show "wf (measure (\<lambda>(files, out, b, s, e, i). card {j. i \<le> j \<and> duplicate_path out b s e j \<in> set files}))"
    by simp
next
  fix files :: "string list" and out b s e :: string and i :: nat
  assume ex: "duplicate_path out b s e i \<in> set files"
  let ?A = "{j. i + 1 \<le> j \<and> duplicate_path out b s e j \<in> set files}"
  let ?B = "{j. i \<le> j \<and> duplicate_path out b s e j \<in> set files}"
  have "finite ?B"
    by (rule finite_subset [OF _ finite_duplicate_indices [of out b s e files]]) auto
  moreover have "?A \<subset> ?B"
  proof -
    have "?A \<subseteq> ?B" by auto
    moreover have "i \<in> ?B" using ex by simp
    moreover have "i \<notin> ?A" by simp
    ultimately show ?thesis by blast
  qed
  ultimately have "card ?A < card ?B" by (rule psubset_card_mono)
  then show "((files, out, b, s, e, i + 1), (files, out, b, s, e, i))
      \<in> measure (\<lambda>(files, out, b, s, e, i). card {j. i \<le> j \<and> duplicate_path out b s e j \<in> set files})"
    by simp
qed

declare next_free_index.simps [simp del]




text \<open>
  The lines that \<^verbatim>\<open>_copy_photo\<close> and \<^verbatim>\<open>_move_photo\<close> write to the log.
\<close>

datatype log_msg =
    Skipping_duplicate string
  | Duplicate_detected string
  | Photo_copied string
  | Photo_moved string
  | Error_copying string
  | Error_moving string

text \<open>
  \<^verbatim>\<open>shutil.copy2\<close> and \<^verbatim>\<open>shutil.move\<close> on the list of existing paths: both
  raise when the source does not exist; the move removes the source.
\<close>

definition shutil_copy2 :: "string list \<Rightarrow> string \<Rightarrow> string \<Rightarrow> string list option" where
  "shutil_copy2 files src dst =
     (if src \<in> set files then Some (List.insert dst files) else None)"

definition shutil_move :: "string list \<Rightarrow> string \<Rightarrow> string \<Rightarrow> string list option" where
  "shutil_move files src dst =
     (if src \<in> set files then Some (List.insert dst (removeAll src files)) else None)"

text \<open>
  \<^verbatim>\<open>_copy_photo\<close> and \<^verbatim>\<open>_move_photo\<close>: the returned path (\<^verbatim>\<open>None\<close> for a
  skipped duplicate and for a failed transfer), the log lines, and the paths that exist
  afterwards.
\<close>

definition copy_photo ::
  "config \<Rightarrow> string list \<Rightarrow> string \<Rightarrow> string \<Rightarrow> string option \<times> log_msg list \<times> string list" where
  "copy_photo cfg files photo_path output_path =
     (let photo_name = basename photo_path;
          destination_path = path_join output_path photo_name
      in if skip_duplicates cfg \<and> destination_path \<in> set files
         then (None, [Skipping_duplicate photo_path], files)
         else
           let (destination_path, logged) =
                 (if destination_path \<in> set files
                  then
                    let (base, ext) = splitext photo_name;
                        i = next_free_index files output_path base (duplicate_suffix cfg) ext 1;
                        destination_path = duplicate_path output_path base (duplicate_suffix cfg) ext i
                    in (destination_path, [Duplicate_detected destination_path])
                  else (destination_path, []))
           in case shutil_copy2 files photo_path destination_path of
                None \<Rightarrow> (None, logged @ [Error_copying photo_path], files)
              | Some files' \<Rightarrow>
                  (Some destination_path, logged @ [Photo_copied destination_path], files'))"

definition move_photo ::
  "config \<Rightarrow> string list \<Rightarrow> string \<Rightarrow> string \<Rightarrow> string option \<times> log_msg list \<times> string list" where
  "move_photo cfg files photo_path output_path =
     (let photo_name = basename photo_path;
          destination_path = path_join output_path photo_name
      in if skip_duplicates cfg \<and> destination_path \<in> set files
         then (None, [Skipping_duplicate photo_path], files)
         else
           let (destination_path, logged) =
                 (if destination_path \<in> set files
                  then
                    let (base, ext) = splitext photo_name;
                        i = next_free_index files output_path base (duplicate_suffix cfg) ext 1;
                        destination_path = duplicate_path output_path base (duplicate_suffix cfg) ext i
                    in (destination_path, [Duplicate_detected destination_path])
                  else (destination_path, []))
           in case shutil_move files photo_path destination_path of
                None \<Rightarrow> (None, logged @ [Error_moving photo_path], files)
              | Some files' \<Rightarrow>
                  (Some destination_path, logged @ [Photo_moved destination_path], files'))"









section \<open>ExifExtractor\<close>

text \<open>
  The values an EXIF attribute of the image can hold, as far as \<^verbatim>\<open>get_gps_coordinates\<close>
  tells them apart: \<^verbatim>\<open>None\<close>, a tuple of numbers (degrees, minutes, seconds), a float,
  or a value of another type (an int stands for those). \<open>truthy\<close> is Python's truth value.
\<close>

datatype py_value = PyNone | PyTuple "real list" | PyFloat real | PyInt int

fun truthy :: "py_value \<Rightarrow> bool" where
  "truthy PyNone = False"
| "truthy (PyTuple xs) = (xs \<noteq> [])"
| "truthy (PyFloat x) = (x \<noteq> 0)"
| "truthy (PyInt n) = (n \<noteq> 0)"

record datetime =
  year :: nat
  month :: nat
  day :: nat
  hour :: nat
  minute :: nat
  second :: nat

text \<open>
  The \<^verbatim>\<open>Image\<close> object of the EXIF library. An attribute that the image does not
  carry raises \<^verbatim>\<open>AttributeError\<close> when read: that is the value \<open>None\<close> of the field
  here. \<open>photo_date\<close> is what \<^verbatim>\<open>PhotoProcessor._get_photo_date\<close> returns for the
  image (the parsed capture date, or \<^verbatim>\<open>None\<close>); the parsing itself is not modelled.
\<close>

record image =
  has_exif :: bool
  gps_latitude :: "py_value option"
  gps_longitude :: "py_value option"
  gps_latitude_ref :: "string option"
  gps_longitude_ref :: "string option"
  photo_date :: "datetime option"

text \<open>
  \<^verbatim>\<open>_convert_to_decimal_degrees(coord, ref)\<close>: \<^verbatim>\<open>coord[0] + coord[1] / 60 + coord[2] / 3600\<close>,
  negated for the references S and W. A tuple with fewer than three entries raises
  \<^verbatim>\<open>IndexError\<close>, which the function catches and answers with \<^verbatim>\<open>None\<close>.
\<close>

definition convert_to_decimal_degrees :: "real list \<Rightarrow> string \<Rightarrow> real option" where
  "convert_to_decimal_degrees coord ref =
     (if length coord < 3 then None
      else
        let decimal_degrees = coord ! 0 + coord ! 1 / 60 + coord ! 2 / 3600 in
        Some (if ref = ''S'' \<or> ref = ''W'' then - decimal_degrees else decimal_degrees))"

text \<open>
  \<^verbatim>\<open>get_gps_coordinates(image)\<close>. Every \<^verbatim>\<open>AttributeError\<close> raised inside the
  \<^verbatim>\<open>try\<close> block ends in the final \<^verbatim>\<open>return None, None\<close>.
\<close>

definition get_gps_coordinates :: "config \<Rightarrow> image \<Rightarrow> real option \<times> real option" where
  "get_gps_coordinates cfg img =
     (if \<not> has_exif img then (None, None)
      else if \<not> use_exif_gps cfg then (None, None)
      else
        case gps_latitude img of
          None \<Rightarrow> (None, None)
        | Some latitude \<Rightarrow>
            (case gps_longitude img of
               None \<Rightarrow> (None, None)
             | Some longitude \<Rightarrow>
                 if \<not> (truthy latitude \<and> truthy longitude) then (None, None)
                 else
                   (case (latitude, longitude) of
                      (PyTuple lat_dms, PyTuple lon_dms) \<Rightarrow>
                        (case gps_latitude_ref img of
                           None \<Rightarrow> (None, None)
                         | Some lat_ref \<Rightarrow>
                             (case gps_longitude_ref img of
                                None \<Rightarrow> (None, None)
                              | Some lon_ref \<Rightarrow>
                                  (convert_to_decimal_degrees lat_dms lat_ref,
                                   convert_to_decimal_degrees lon_dms lon_ref)))
                    | (PyFloat lat, PyFloat lon) \<Rightarrow> (Some lat, Some lon)
                    | _ \<Rightarrow> (None, None))))"

section \<open>Collaborators\<close>

text \<open>
  What the pipeline calls outside of the program, taken as parameters:
  \<^item> \<open>geodesic_km\<close>: \<^verbatim>\<open>geodesic(a, b).km\<close> of geopy;
  \<^item> \<open>reverse\<close>: the rate-limited \<^verbatim>\<open>Nominatim.reverse\<close>. Its answer is a matter of the
    network and may differ from one call to the next, so it is a function of the number
    of calls made before and of the coordinate;
  \<^item> \<open>json_dump\<close>: the pieces \<^verbatim>\<open>json.dump\<close> writes for a cache, in order;
  \<^item> \<open>unidecode\<close>: the transliteration to ASCII;
  \<^item> \<open>read_exif\<close>: the \<^verbatim>\<open>Image\<close> the EXIF library builds from a file
    (\<^verbatim>\<open>None\<close> when it raises).
\<close>

type_synonym coord = "real \<times> real"

type_synonym cache = "(coord \<times> string) list"

datatype backend_reply = Backend_error | No_location | Location "(string \<times> string) list"

record env =
  geodesic_km :: "coord \<Rightarrow> coord \<Rightarrow> real"
  reverse :: "nat \<Rightarrow> coord \<Rightarrow> backend_reply"
  json_dump :: "cache \<Rightarrow> string list"
  unidecode :: "string \<Rightarrow> string"
  read_exif :: "string \<Rightarrow> image option"

section \<open>Geolocator\<close>

text \<open>
  The state the pipeline changes: the in-memory \<^verbatim>\<open>location_cache\<close> (a dict, so an
  association list in insertion order; its key \<^verbatim>\<open>f"{latitude}, {longitude}"\<close> is kept
  as the pair that \<^verbatim>\<open>float\<close> reads back from it), the content of
  \<^verbatim>\<open>location_cache.json\<close> on disk (\<open>None\<close>: no such file), the number of calls made
  to the geocoding backend, and the paths of the files that exist.
\<close>

record world =
  location_cache :: cache
  cache_file :: "string option"
  backend_calls :: nat
  files :: "string list"

text \<open>\<^verbatim>\<open>d[k] = v\<close> on a dict: an existing key keeps its place, a new one goes last.\<close>

fun dict_set :: "('k \<times> 'v) list \<Rightarrow> 'k \<Rightarrow> 'v \<Rightarrow> ('k \<times> 'v) list" where
  "dict_set [] k v = [(k, v)]"
| "dict_set ((k', v') # kvs) k v =
     (if k' = k then (k, v) # kvs else (k', v') # dict_set kvs k v)"

text \<open>
  \<^verbatim>\<open>_save_cache\<close>: \<^verbatim>\<open>open(self.cache_file, 'w')\<close> empties (or creates) the file, then
  \<^verbatim>\<open>json.dump\<close> writes the cache into it piece by piece.
\<close>

datatype file_op = Open_truncate | Write string

fun apply_file_op :: "string option \<Rightarrow> file_op \<Rightarrow> string option" where
  "apply_file_op content Open_truncate = Some []"
| "apply_file_op content (Write chunk) = map_option (\<lambda>written. written @ chunk) content"

definition run_file_ops :: "string option \<Rightarrow> file_op list \<Rightarrow> string option" where
  "run_file_ops content ops = foldl apply_file_op content ops"

definition save_cache_ops :: "env \<Rightarrow> cache \<Rightarrow> file_op list" where
  "save_cache_ops env c = Open_truncate # map Write (json_dump env c)"

definition save_cache :: "env \<Rightarrow> world \<Rightarrow> world" where
  "save_cache env w =
     w\<lparr>cache_file := run_file_ops (cache_file w) (save_cache_ops env (location_cache w))\<rparr>"

text \<open>Python's truth value of an optional string: \<^verbatim>\<open>None\<close> and \<^verbatim>\<open>''\<close> are falsy.\<close>

fun str_truthy :: "string option \<Rightarrow> bool" where
  "str_truthy None = False"
| "str_truthy (Some s) = (s \<noteq> [])"

definition py_or :: "string option \<Rightarrow> string option \<Rightarrow> string option" where
  "py_or a b = (if str_truthy a then a else b)"

text \<open>\<^verbatim>\<open>sep.join(parts)\<close> and \<^verbatim>\<open>s.split(', ')\<close>.\<close>

fun str_join :: "string \<Rightarrow> string list \<Rightarrow> string" where
  "str_join sep [] = []"
| "str_join sep [x] = x"
| "str_join sep (x # y # ys) = x @ sep @ str_join sep (y # ys)"

fun split_comma_space :: "string \<Rightarrow> string \<Rightarrow> string list" where
  "split_comma_space part [] = [part]"
| "split_comma_space part (c # cs) =
     (if take 2 (c # cs) = '', '' then part # split_comma_space [] (drop 1 cs)
      else split_comma_space (part @ [c]) cs)"

definition str_split :: "string \<Rightarrow> string list" where
  "str_split s = split_comma_space [] s"

lemma split_comma_space_nonempty: "split_comma_space part s \<noteq> []"
  by (induction part s rule: split_comma_space.induct) auto

lemma str_split_nonempty: "str_split s \<noteq> []"
  by (simp add: str_split_def split_comma_space_nonempty)

text \<open>
  \<^verbatim>\<open>_parse_location\<close>: city (or town, or village), state (or county) and country of the
  address, the falsy ones dropped, joined by a comma and a space.
\<close>

definition parse_location :: "backend_reply \<Rightarrow> string option" where
  "parse_location location =
     (case location of
        Location address \<Rightarrow>
          let city = py_or (py_or (map_of address ''city'') (map_of address ''town''))
                           (map_of address ''village'');
              state = py_or (map_of address ''state'') (map_of address ''county'');
              country = map_of address ''country''
          in Some (str_join '', '' (map the (filter str_truthy [city, state, country])))
      | _ \<Rightarrow> None)"

text \<open>
  \<^verbatim>\<open>_is_cached_location_nearby\<close>: the name of the first cached entry within the distance
  threshold of the query.
\<close>

definition is_cached_location_nearby ::
  "env \<Rightarrow> config \<Rightarrow> cache \<Rightarrow> real \<Rightarrow> real \<Rightarrow> string option" where
  "is_cached_location_nearby env cfg c latitude longitude =
     map_option snd
       (find (\<lambda>(cached_location, location_str).
                geodesic_km env (latitude, longitude) cached_location
                  \<le> cache_distance_threshold cfg) c)"

text \<open>
  \<^verbatim>\<open>Geolocator.reverse_geocode\<close>. An exception of the backend call is caught and
  answered with \<^verbatim>\<open>None\<close>.
\<close>

definition reverse_geocode ::
  "env \<Rightarrow> config \<Rightarrow> world \<Rightarrow> real \<Rightarrow> real \<Rightarrow> string option \<times> world" where
  "reverse_geocode env cfg w latitude longitude =
     (let cached_location =
            (if cache_geocoding_results cfg
             then is_cached_location_nearby env cfg (location_cache w) latitude longitude
             else None)
      in if str_truthy cached_location then (cached_location, w)
         else
           let location = reverse env (backend_calls w) (latitude, longitude);
               w = w\<lparr>backend_calls := backend_calls w + 1\<rparr>
           in case location of
                Backend_error \<Rightarrow> (None, w)
              | _ \<Rightarrow>
                  let location_str = parse_location location
                  in if str_truthy location_str \<and> cache_geocoding_results cfg
                     then (location_str,
                           save_cache env
                             (w\<lparr>location_cache :=
                                  dict_set (location_cache w) (latitude, longitude)
                                    (the location_str)\<rparr>))
                     else (location_str, w))"

section \<open>PhotoProcessor: classifying a photo\<close>

datatype py_error = AttributeError

text \<open>
  \<^verbatim>\<open>_validate_gps_coordinates\<close>: both values present and inside the fixed box
  \<open>24 \<le> latitude \<le> 49\<close>, \<open>-125 \<le> longitude \<le> -66\<close>.
\<close>

definition validate_gps_coordinates :: "real option \<Rightarrow> real option \<Rightarrow> bool" where
  "validate_gps_coordinates latitude longitude =
     (case (latitude, longitude) of
        (Some lat, Some lon) \<Rightarrow> 24 \<le> lat \<and> lat \<le> 49 \<and> - 125 \<le> lon \<and> lon \<le> - 66
      | _ \<Rightarrow> False)"

text \<open>
  \<^verbatim>\<open>PhotoProcessor._reverse_geocode\<close>: the geolocator's answer, transliterated when it is
  truthy.
\<close>

definition pp_reverse_geocode ::
  "env \<Rightarrow> config \<Rightarrow> world \<Rightarrow> real \<Rightarrow> real \<Rightarrow> string option \<times> world" where
  "pp_reverse_geocode env cfg w latitude longitude =
     (let (city, w) = reverse_geocode env cfg w latitude longitude
      in if \<not> str_truthy city then (city, w) else (map_option (unidecode env) city, w))"

text \<open>
  \<^verbatim>\<open>_apply_location_filters\<close>. The argument is what \<^verbatim>\<open>_reverse_geocode\<close> returned;
  \<^verbatim>\<open>None.split\<close> raises \<^verbatim>\<open>AttributeError\<close>. \<^verbatim>\<open>location_parts[-1]\<close> is the last
  part and \<^verbatim>\<open>location_parts[-2:]\<close> the last two (all of them when there are fewer).
\<close>

definition apply_location_filters :: "config \<Rightarrow> string option \<Rightarrow> py_error + string" where
  "apply_location_filters cfg city_rgeo =
     (case city_rgeo of
        None \<Rightarrow> Inl AttributeError
      | Some s \<Rightarrow>
          let location_parts = str_split s
          in Inr (if group_by_country cfg then last location_parts
                  else if group_by_state cfg
                    then str_join '', '' (drop (length location_parts - 2) location_parts)
                  else if group_by_city cfg then str_join '', '' (rev location_parts)
                  else str_join '', '' (rev location_parts)))"

text \<open>
  \<^verbatim>\<open>datetime.strftime\<close> for the directives \<open>%Y\<close>, \<open>%m\<close>, \<open>%d\<close>, \<open>%H\<close>, \<open>%M\<close>,
  \<open>%S\<close> and \<open>%%\<close>; every other character is copied.
\<close>

definition pad2 :: "nat \<Rightarrow> string" where
  "pad2 n = (if n < 10 then CHR ''0'' # str_nat n else str_nat n)"

definition strftime_directive :: "datetime \<Rightarrow> char \<Rightarrow> string" where
  "strftime_directive dt d =
     (if d = CHR ''Y'' then str_nat (year dt)
      else if d = CHR ''m'' then pad2 (month dt)
      else if d = CHR ''d'' then pad2 (day dt)
      else if d = CHR ''H'' then pad2 (hour dt)
      else if d = CHR ''M'' then pad2 (minute dt)
      else if d = CHR ''S'' then pad2 (second dt)
      else if d = CHR ''%'' then ''%''
      else [CHR ''%'', d])"

fun strftime :: "datetime \<Rightarrow> string \<Rightarrow> string" where
  "strftime dt (c # d # cs) =
     (if c = CHR ''%'' then strftime_directive dt d @ strftime dt cs
      else c # strftime dt (d # cs))"
| "strftime dt cs = cs"

text \<open>
  \<^verbatim>\<open>_create_output_path\<close> and \<^verbatim>\<open>_create_unsortable_path\<close>: the directory they
  return. The directory is also created on disk; only files are tracked here.
\<close>

definition create_output_path :: "config \<Rightarrow> string \<Rightarrow> string \<Rightarrow> datetime option \<Rightarrow> string" where
  "create_output_path cfg output_directory city date_taken =
     (case (if sort_by_date cfg then date_taken else None) of
        Some dt \<Rightarrow>
          let date_dir = strftime dt (date_format cfg)
          in if sort_by_location cfg
             then path_join (path_join output_directory city) date_dir
             else path_join output_directory date_dir
      | None \<Rightarrow>
          if sort_by_location cfg then path_join output_directory city
          else output_directory)"

definition create_unsortable_path :: "config \<Rightarrow> string \<Rightarrow> datetime option \<Rightarrow> string" where
  "create_unsortable_path cfg output_directory date_taken =
     (let unsortable_dir = path_join output_directory (unsortable_folder cfg)
      in case (if sort_by_date cfg then date_taken else None) of
           Some dt \<Rightarrow> path_join unsortable_dir (strftime dt (date_format cfg))
         | None \<Rightarrow> unsortable_dir)"

text \<open>
  The part of \<^verbatim>\<open>process_photos\<close> that picks the destination directory of one photo
  (from \<^verbatim>\<open>if self._validate_gps_coordinates(latitude, longitude)\<close> to the end of its
  \<^verbatim>\<open>else\<close>): the directory and \<^verbatim>\<open>is_sortable\<close>, or the exception raised on the way.
\<close>

definition resolve_output_path ::
  "env \<Rightarrow> config \<Rightarrow> world \<Rightarrow> string \<Rightarrow> real option \<Rightarrow> real option \<Rightarrow> datetime option
     \<Rightarrow> (py_error + string \<times> bool) \<times> world" where
  "resolve_output_path env cfg w output_directory latitude longitude date_taken =
     (if validate_gps_coordinates latitude longitude
      then
        let (city_rgeo, w) = pp_reverse_geocode env cfg w (the latitude) (the longitude)
        in case apply_location_filters cfg city_rgeo of
             Inl err \<Rightarrow> (Inl err, w)
           | Inr city \<Rightarrow>
               if city \<noteq> []
               then (Inr (create_output_path cfg output_directory city date_taken, True), w)
               else (Inr (create_unsortable_path cfg output_directory date_taken, False), w)
      else (Inr (create_unsortable_path cfg output_directory date_taken, False), w))"

section \<open>PhotoProcessor: the batch\<close>

text \<open>
  \<^verbatim>\<open>extract_exif_data\<close>: \<^verbatim>\<open>None\<close> when the file does not exist or the EXIF library
  raises.
\<close>

definition extract_exif_data :: "env \<Rightarrow> world \<Rightarrow> string \<Rightarrow> image option" where
  "extract_exif_data env w photo_path =
     (if photo_path \<in> set (files w) then read_exif env photo_path else None)"

text \<open>The three counters of \<^verbatim>\<open>process_photos\<close>, and the tuple it yields.\<close>

record summary =
  processed_photos :: nat
  sortable_photos :: nat
  unsortable_photos :: nat

type_synonym progress = "nat \<times> nat \<times> nat \<times> nat \<times> string"

text \<open>
  One turn of the loop of \<^verbatim>\<open>process_photos\<close>: the tuple yielded for the photo, the
  counters and the state after it. The three branches are the early \<^verbatim>\<open>continue\<close> for
  a photo without EXIF data, the \<^verbatim>\<open>except\<close> handler, and the normal end of the
  \<^verbatim>\<open>try\<close> block.
\<close>

definition process_photo ::
  "env \<Rightarrow> config \<Rightarrow> string \<Rightarrow> nat \<Rightarrow> world \<Rightarrow> summary \<Rightarrow> string
     \<Rightarrow> progress \<times> summary \<times> world" where
  "process_photo env cfg output_directory total_photos w cnt photo_path =
     (case extract_exif_data env w photo_path of
        None \<Rightarrow>
          let cnt = cnt\<lparr>unsortable_photos := unsortable_photos cnt + 1\<rparr>
          in ((processed_photos cnt + 1, total_photos, sortable_photos cnt,
               unsortable_photos cnt, photo_path), cnt, w)
      | Some exif_data \<Rightarrow>
          let (latitude, longitude) = get_gps_coordinates cfg exif_data;
              date_taken = photo_date exif_data
          in case resolve_output_path env cfg w output_directory latitude longitude date_taken of
               (Inl err, w) \<Rightarrow>
                 let cnt = cnt\<lparr>unsortable_photos := unsortable_photos cnt + 1\<rparr>
                 in ((processed_photos cnt, total_photos, sortable_photos cnt,
                      unsortable_photos cnt, photo_path), cnt, w)
             | (Inr (output_path, is_sortable), w) \<Rightarrow>
                 let (destination_path, logged, files') =
                       (if copy_files cfg then copy_photo cfg (files w) photo_path output_path
                        else move_photo cfg (files w) photo_path output_path);
                     w = w\<lparr>files := files'\<rparr>;
                     cnt = cnt\<lparr>processed_photos := processed_photos cnt + 1\<rparr>;
                     cnt = (if is_sortable
                            then cnt\<lparr>sortable_photos := sortable_photos cnt + 1\<rparr>
                            else cnt\<lparr>unsortable_photos := unsortable_photos cnt + 1\<rparr>)
                 in ((processed_photos cnt, total_photos, sortable_photos cnt,
                      unsortable_photos cnt, photo_path), cnt, w))"

fun process_loop ::
  "env \<Rightarrow> config \<Rightarrow> string \<Rightarrow> nat \<Rightarrow> world \<Rightarrow> summary \<Rightarrow> string list
     \<Rightarrow> progress list \<times> summary \<times> world" where
  "process_loop env cfg output_directory total_photos w cnt [] = ([], cnt, w)"
| "process_loop env cfg output_directory total_photos w cnt (photo_path # photo_paths) =
     (let (event, cnt, w) = process_photo env cfg output_directory total_photos w cnt photo_path;
          (events, cnt, w) = process_loop env cfg output_directory total_photos w cnt photo_paths
      in (event # events, cnt, w))"

text \<open>
  \<^verbatim>\<open>process_photos\<close>: the tuples it yields, in order, the counters it logs at the end
  and the final state.
\<close>

definition process_photos ::
  "env \<Rightarrow> config \<Rightarrow> world \<Rightarrow> string list \<Rightarrow> string \<Rightarrow> progress list \<times> summary \<times> world" where
  "process_photos env cfg w photo_paths output_directory =
     process_loop env cfg output_directory (length photo_paths) w
       \<lparr>processed_photos = 0, sortable_photos = 0, unsortable_photos = 0\<rparr> photo_paths"

text \<open>
  Every name stored in the cache is non-empty. \<^verbatim>\<open>reverse_geocode\<close> stores a name only
  when it is truthy, so every cache it builds from the empty one is of this kind.
\<close>

definition cache_names_nonempty :: "cache \<Rightarrow> bool" where
  "cache_names_nonempty c = list_all (\<lambda>(cached_location, location_str). location_str \<noteq> []) c"

section \<open>Example data\<close>

text \<open>
  The address record and the place name of the scenario of the specification, and
  collaborators for it: a flat distance of 111 km per degree for \<open>geodesic_km\<close>, a
  backend that answers every call with that address, a serialisation that writes a
  brace, the names and a brace, and no readable photo.
\<close>

definition new_york_address :: "(string \<times> string) list" where
  "new_york_address =
     [(''city'', ''New York''), (''state'', ''New York''), (''country'', ''United States'')]"

definition new_york :: string where
  "new_york = ''New York, New York, United States''"

definition example_env :: env where
  "example_env =
     \<lparr>geodesic_km = (\<lambda>(lat1, lon1) (lat2, lon2). 111 * (\<bar>lat1 - lat2\<bar> + \<bar>lon1 - lon2\<bar>)),
      reverse = (\<lambda>n c. Location new_york_address),
      json_dump = (\<lambda>c. ''{'' # map snd c @ [''}'']),
      unidecode = (\<lambda>s. s),
      read_exif = (\<lambda>p. None)\<rparr>"

text \<open>The same with a backend whose first call fails and whose later calls succeed.\<close>

definition flaky_env :: env where
  "flaky_env = example_env\<lparr>reverse := (\<lambda>n c. if n = 0 then Backend_error else Location new_york_address)\<rparr>"

text \<open>The state of a first run: no cache, no cache file, no call made, no file.\<close>

definition empty_world :: world where
  "empty_world = \<lparr>location_cache = [], cache_file = None, backend_calls = 0, files = []\<rparr>"

text \<open>A cache that was saved, and the cache after one more entry.\<close>

definition old_cache :: cache where
  "old_cache = [((40.7128, - 74.006), new_york)]"

definition grown_cache :: cache where
  "grown_cache = old_cache @ [((39.9526, - 75.1652), ''Philadelphia, Pennsylvania, United States'')]"

text \<open>
  The capture date of the scenario, a photo taken in New York (40.7128, -74.006 in
  degrees, minutes and seconds), and collaborators that read this photo from every
  file while every backend call fails.
\<close>

definition march_15 :: datetime where
  "march_15 = \<lparr>year = 2024, month = 3, day = 15, hour = 10, minute = 30, second = 0\<rparr>"

definition new_york_image :: image where
  "new_york_image =
     \<lparr>has_exif = True,
      gps_latitude = Some (PyTuple [40, 42, 46.08]),
      gps_longitude = Some (PyTuple [74, 0, 21.6]),
      gps_latitude_ref = Some ''N'', gps_longitude_ref = Some ''W'',
      photo_date = Some march_15\<rparr>"

definition failing_env :: env where
  "failing_env =
     example_env\<lparr>reverse := (\<lambda>n c. Backend_error), read_exif := (\<lambda>p. Some new_york_image)\<rparr>"

text \<open>The same where only \<open>/in/b.jpg\<close> can be read.\<close>

definition mixed_env :: env where
  "mixed_env =
     failing_env\<lparr>read_exif := (\<lambda>p. if p = ''/in/b.jpg'' then Some new_york_image else None)\<rparr>"

section \<open>Properties of the EXIF extraction\<close>

text \<open>
  C6: for every degrees/minutes/seconds triple \<open>(d, m, s)\<close> and every reference string,
  the conversion returns \<open>d + m/60 + s/3600\<close>, negated exactly when the reference is
  \<open>S\<close> or \<open>W\<close> and unnegated for every other reference.
\<close>

theorem convert_to_decimal_degrees_formula:
  "convert_to_decimal_degrees [d, m, s] ref =
     Some (if ref = ''S'' \<or> ref = ''W'' then - (d + m / 60 + s / 3600)
           else d + m / 60 + s / 3600)"
  by (simp add: convert_to_decimal_degrees_def)

text \<open>
  C10: when the latitude or the longitude read from the image is falsy (the float
  \<open>0.0\<close>, \<^verbatim>\<open>None\<close>, an empty tuple), \<^verbatim>\<open>get_gps_coordinates\<close> returns
  \<open>(None, None)\<close>, whatever the other field holds.
\<close>

theorem get_gps_coordinates_falsy:
  assumes "gps_latitude img = Some latitude \<and> \<not> truthy latitude
         \<or> gps_longitude img = Some longitude \<and> \<not> truthy longitude"
  shows "get_gps_coordinates cfg img = (None, None)"
  using assms by (auto simp: get_gps_coordinates_def split: option.splits)

theorem get_gps_coordinates_falsy_witness:
  "\<not> truthy (PyFloat 0)
   \<and> get_gps_coordinates default_config
        \<lparr>has_exif = True, gps_latitude = Some (PyFloat 0),
         gps_longitude = Some (PyTuple [74, 0, 21.6]),
         gps_latitude_ref = Some ''N'', gps_longitude_ref = Some ''W'',
         photo_date = None\<rparr> = (None, None)"
  using get_gps_coordinates_falsy [of
      "\<lparr>has_exif = True, gps_latitude = Some (PyFloat 0),
        gps_longitude = Some (PyTuple [74, 0, 21.6]),
        gps_latitude_ref = Some ''N'', gps_longitude_ref = Some ''W'',
        photo_date = None\<rparr>" "PyFloat 0" "PyFloat 0" default_config]
  by simp

section \<open>Properties of the placement\<close>



section \<open>Properties of the geocode cache\<close>

lemma find_SomeD: "find P xs = Some x \<Longrightarrow> x \<in> set xs \<and> P x"
  by (induction xs) (auto split: if_splits)

lemma find_exists: "x \<in> set xs \<Longrightarrow> P x \<Longrightarrow> \<exists>y. find P xs = Some y"
  by (induction xs) auto

lemma dict_set_list_all:
  "list_all P kvs \<Longrightarrow> P (k, v) \<Longrightarrow> list_all P (dict_set kvs k v)"
  by (induction kvs) auto

lemma find_dict_set_new:
  "find P kvs = None \<Longrightarrow> P (k, v) \<Longrightarrow> find P (dict_set kvs k v) = Some (k, v)"
  by (induction kvs) (auto split: if_splits)

lemma write_chunks:
  "foldl apply_file_op (Some written) (map Write chunks) = Some (written @ concat chunks)"
  by (induction chunks arbitrary: written) simp_all

lemma run_save_cache_ops:
  "run_file_ops content (save_cache_ops env c) = Some (concat (json_dump env c))"
  using write_chunks [of "[]"] by (simp add: run_file_ops_def save_cache_ops_def)

lemma location_cache_save_cache [simp]:
  "location_cache (save_cache env w) = location_cache w"
  by (simp add: save_cache_def)

lemma parse_new_york: "parse_location (Location new_york_address) = Some new_york"
  by (simp add: parse_location_def new_york_address_def py_or_def new_york_def)

lemma dump_old_cache: "concat (json_dump example_env old_cache) = ''{'' @ new_york @ ''}''"
  by (simp add: example_env_def old_cache_def)

lemma dump_grown_cache:
  "concat (json_dump example_env grown_cache) =
     ''{'' @ new_york @ ''Philadelphia, Pennsylvania, United States'' @ ''}''"
  by (simp add: example_env_def old_cache_def grown_cache_def)

text \<open>
  The cache invariant: \<^verbatim>\<open>reverse_geocode\<close> keeps every stored name non-empty.
\<close>

lemma reverse_geocode_cache_names:
  assumes "cache_names_nonempty (location_cache w)"
  shows "cache_names_nonempty (location_cache (snd (reverse_geocode env cfg w latitude longitude)))"
proof -
  have "str_truthy s \<Longrightarrow>
      cache_names_nonempty (dict_set (location_cache w) (latitude, longitude) (the s))" for s
    using assms unfolding cache_names_nonempty_def
    by (cases s) (auto intro: dict_set_list_all)
  with assms show ?thesis
    by (auto simp: reverse_geocode_def Let_def split: backend_reply.splits)
qed

text \<open>
  C4: with caching enabled, when some cached entry lies within the distance threshold of
  the query, \<^verbatim>\<open>reverse_geocode\<close> returns the name of such an entry (the first one in
  the cache) and leaves the state as it is: no backend call, no change of the cache or of
  its file.
\<close>

theorem cached_location_nearby_no_backend_call:
  assumes "cache_geocoding_results cfg"
    and "cache_names_nonempty (location_cache w)"
    and "(cached_location, location_str) \<in> set (location_cache w)"
    and "geodesic_km env (latitude, longitude) cached_location \<le> cache_distance_threshold cfg"
  shows "\<exists>c name.
      (c, name) \<in> set (location_cache w)
      \<and> geodesic_km env (latitude, longitude) c \<le> cache_distance_threshold cfg
      \<and> is_cached_location_nearby env cfg (location_cache w) latitude longitude = Some name
      \<and> reverse_geocode env cfg w latitude longitude = (Some name, w)"
proof -
  let ?P = "\<lambda>(c, name). geodesic_km env (latitude, longitude) c \<le> cache_distance_threshold cfg"
  from assms(4) have "?P (cached_location, location_str)" by simp
  with assms(3) obtain hit where "find ?P (location_cache w) = Some hit"
    using find_exists [of "(cached_location, location_str)" "location_cache w" ?P] by blast
  then obtain c name where f: "find ?P (location_cache w) = Some (c, name)"
    by (cases hit) simp
  from find_SomeD [OF f] have mem: "(c, name) \<in> set (location_cache w)" and near: "?P (c, name)"
    by simp_all
  from mem assms(2) have "name \<noteq> []"
    by (auto simp: cache_names_nonempty_def list_all_iff)
  with f assms(1) have "reverse_geocode env cfg w latitude longitude = (Some name, w)"
    by (simp add: reverse_geocode_def is_cached_location_nearby_def)
  with f mem near show ?thesis
    by (intro exI [of _ c] exI [of _ name]) (simp add: is_cached_location_nearby_def)
qed

theorem cached_location_nearby_no_backend_call_witness:
  "cache_geocoding_results default_config
   \<and> cache_names_nonempty [((40.7128, - 74.006), new_york)]
   \<and> geodesic_km example_env (40.713, - 74.0061) (40.7128, - 74.006)
       \<le> cache_distance_threshold default_config
   \<and> reverse_geocode example_env default_config
        (empty_world\<lparr>location_cache := [((40.7128, - 74.006), new_york)]\<rparr>) 40.713 (- 74.0061) =
       (Some new_york, empty_world\<lparr>location_cache := [((40.7128, - 74.006), new_york)]\<rparr>)"
proof -
  let ?w = "empty_world\<lparr>location_cache := [((40.7128, - 74.006), new_york)]\<rparr>"
  have a: "cache_geocoding_results default_config" by (simp add: default_config_def)
  have b: "cache_names_nonempty (location_cache ?w)"
    by (simp add: cache_names_nonempty_def new_york_def)
  have c: "((40.7128, - 74.006), new_york) \<in> set (location_cache ?w)" by simp
  have d: "geodesic_km example_env (40.713, - 74.0061) (40.7128, - 74.006)
      \<le> cache_distance_threshold default_config"
    by (simp add: example_env_def default_config_def)
  from cached_location_nearby_no_backend_call [OF a b c d]
  obtain c' name where "(c', name) \<in> set (location_cache ?w)"
    and "reverse_geocode example_env default_config ?w 40.713 (- 74.0061) = (Some name, ?w)"
    by blast
  then have "reverse_geocode example_env default_config ?w 40.713 (- 74.0061) = (Some new_york, ?w)"
    by simp
  with a b d show ?thesis by simp
qed

text \<open>
  C5, as stated, fails: a first resolve whose backend call fails returns \<^verbatim>\<open>None\<close> and
  caches nothing, so a second resolve of the same coordinate asks the backend again; when
  that call succeeds the second result differs from the first and the cache grows.
\<close>

theorem reverse_geocode_twice_counterexample:
  "cache_geocoding_results default_config
   \<and> 0 \<le> cache_distance_threshold default_config
   \<and> fst (reverse_geocode flaky_env default_config empty_world 40.7128 (- 74.006)) = None
   \<and> fst (reverse_geocode flaky_env default_config
             (snd (reverse_geocode flaky_env default_config empty_world 40.7128 (- 74.006)))
             40.7128 (- 74.006)) = Some new_york
   \<and> length (location_cache
        (snd (reverse_geocode flaky_env default_config empty_world 40.7128 (- 74.006)))) = 0
   \<and> length (location_cache
        (snd (reverse_geocode flaky_env default_config
               (snd (reverse_geocode flaky_env default_config empty_world 40.7128 (- 74.006)))
               40.7128 (- 74.006)))) = 1"
proof -
  let ?w1 = "empty_world\<lparr>backend_calls := Suc 0\<rparr>"
  have first: "reverse_geocode flaky_env default_config empty_world 40.7128 (- 74.006) =
      (None, ?w1)"
    by (simp add: reverse_geocode_def is_cached_location_nearby_def flaky_env_def
        example_env_def default_config_def empty_world_def)
  have name: "fst (reverse_geocode flaky_env default_config ?w1 40.7128 (- 74.006)) =
      Some new_york"
    by (simp add: reverse_geocode_def is_cached_location_nearby_def flaky_env_def
        example_env_def default_config_def empty_world_def parse_new_york Let_def)
  have grown: "location_cache (snd (reverse_geocode flaky_env default_config ?w1
        40.7128 (- 74.006))) = [((40.7128, - 74.006), new_york)]"
    by (simp add: reverse_geocode_def is_cached_location_nearby_def flaky_env_def
        example_env_def default_config_def empty_world_def parse_new_york Let_def new_york_def)
  have "cache_geocoding_results default_config \<and> 0 \<le> cache_distance_threshold default_config"
    by (simp add: default_config_def)
  moreover have "length (location_cache ?w1) = 0" by (simp add: empty_world_def)
  ultimately show ?thesis
    unfolding first fst_conv snd_conv using name grown by simp
qed

text \<open>
  C5, amended: with caching enabled, a non-negative threshold and a distance of zero
  from the coordinate to itself, when the first resolve returns a non-empty place name,
  the second resolve of the same coordinate returns the same name and leaves the state
  as the first left it: no further backend call, the same cache.
\<close>

theorem reverse_geocode_twice:
  assumes en: "cache_geocoding_results cfg"
    and thr: "0 \<le> cache_distance_threshold cfg"
    and self: "geodesic_km env (latitude, longitude) (latitude, longitude) = 0"
    and inv: "cache_names_nonempty (location_cache w)"
    and first: "reverse_geocode env cfg w latitude longitude = (Some name, w')"
    and name: "name \<noteq> []"
  shows "reverse_geocode env cfg w' latitude longitude = (Some name, w')"
proof -
  let ?P = "\<lambda>(c, name). geodesic_km env (latitude, longitude) c \<le> cache_distance_threshold cfg"
  show ?thesis
  proof (cases "find ?P (location_cache w)")
    case (Some hit)
    obtain c n where hit: "hit = (c, n)" by (cases hit)
    with Some have "(c, n) \<in> set (location_cache w)" using find_SomeD by fastforce
    with inv have "n \<noteq> []" by (auto simp: cache_names_nonempty_def list_all_iff)
    with Some hit en first have "w' = w" "name = n"
      by (simp_all add: reverse_geocode_def is_cached_location_nearby_def)
    with first show ?thesis by simp
  next
    case None
    let ?w1 = "w\<lparr>backend_calls := backend_calls w + 1\<rparr>"
    from None en first name
    have w': "w' = save_cache env
        (?w1\<lparr>location_cache := dict_set (location_cache w) (latitude, longitude) name\<rparr>)"
      by (auto simp: reverse_geocode_def is_cached_location_nearby_def Let_def
               split: backend_reply.splits if_splits)
    then have c': "location_cache w' = dict_set (location_cache w) (latitude, longitude) name"
      by simp
    from thr self have "?P ((latitude, longitude), name)" by simp
    with None have "find ?P (location_cache w') = Some ((latitude, longitude), name)"
      unfolding c' by (rule find_dict_set_new)
    with en name show ?thesis
      by (simp add: reverse_geocode_def is_cached_location_nearby_def)
  qed
qed

theorem reverse_geocode_twice_witness:
  "cache_geocoding_results default_config
   \<and> 0 \<le> cache_distance_threshold default_config
   \<and> geodesic_km example_env (40.7128, - 74.006) (40.7128, - 74.006) = 0
   \<and> cache_names_nonempty (location_cache empty_world)
   \<and> fst (reverse_geocode example_env default_config empty_world 40.7128 (- 74.006)) = Some new_york
   \<and> new_york \<noteq> []
   \<and> reverse_geocode example_env default_config
        (snd (reverse_geocode example_env default_config empty_world 40.7128 (- 74.006)))
        40.7128 (- 74.006) =
       (Some new_york,
        snd (reverse_geocode example_env default_config empty_world 40.7128 (- 74.006)))"
proof -
  let ?w' = "snd (reverse_geocode example_env default_config empty_world 40.7128 (- 74.006))"
  have a: "cache_geocoding_results default_config" by (simp add: default_config_def)
  have b: "0 \<le> cache_distance_threshold default_config" by (simp add: default_config_def)
  have c: "geodesic_km example_env (40.7128, - 74.006) (40.7128, - 74.006) = 0"
    by (simp add: example_env_def)
  have d: "cache_names_nonempty (location_cache empty_world)"
    by (simp add: cache_names_nonempty_def empty_world_def)
  have e1: "fst (reverse_geocode example_env default_config empty_world 40.7128 (- 74.006)) =
      Some new_york"
    by (simp add: reverse_geocode_def is_cached_location_nearby_def
        example_env_def default_config_def empty_world_def parse_new_york Let_def new_york_def)
  then have e: "reverse_geocode example_env default_config empty_world 40.7128 (- 74.006) =
      (Some new_york, ?w')"
    by (simp add: prod_eq_iff)
  have f: "new_york \<noteq> []" by (simp add: new_york_def)
  from reverse_geocode_twice [OF a b c d e f] a b c d e1 f show ?thesis by simp
qed

text \<open>
  C3, as stated, fails: \<^verbatim>\<open>_save_cache\<close> writes into the cache file itself. Right after
  the file is opened for writing it is empty: neither the snapshot saved before nor the
  new one.
\<close>

theorem save_cache_crash_counterexample:
  "run_file_ops (Some (concat (json_dump example_env old_cache)))
     (take 1 (save_cache_ops example_env grown_cache)) = Some []
   \<and> Some [] \<noteq> Some (concat (json_dump example_env old_cache))
   \<and> Some [] \<noteq> Some (concat (json_dump example_env grown_cache))"
proof -
  have "take 1 (save_cache_ops example_env grown_cache) = [Open_truncate]"
    by (simp add: save_cache_ops_def)
  then show ?thesis
    by (simp add: run_file_ops_def dump_old_cache dump_grown_cache)
qed

text \<open>
  C3, amended: \<^verbatim>\<open>_save_cache\<close> rewrites the cache file in place. Before its first
  step the file is as it was; after \<open>k > 0\<close> steps it holds the first \<open>k - 1\<close> pieces
  of the new snapshot, from the empty file on; a save that completes leaves the whole new
  snapshot and changes neither the cache in memory nor any other file.
\<close>

theorem save_cache_in_place:
  "run_file_ops content (take 0 (save_cache_ops env c)) = content
   \<and> (\<forall>k. 0 < k \<longrightarrow>
         run_file_ops content (take k (save_cache_ops env c)) =
           Some (concat (take (k - 1) (json_dump env c))))
   \<and> cache_file (save_cache env w) = Some (concat (json_dump env (location_cache w)))
   \<and> location_cache (save_cache env w) = location_cache w
   \<and> files (save_cache env w) = files w"
proof (intro conjI allI impI)
  show "run_file_ops content (take 0 (save_cache_ops env c)) = content"
    by (simp add: run_file_ops_def)
next
  fix k :: nat
  assume "0 < k"
  then obtain k' where k: "k = Suc k'" by (cases k) simp_all
  have "run_file_ops content (take k (save_cache_ops env c)) =
      foldl apply_file_op (Some []) (map Write (take k' (json_dump env c)))"
    by (simp add: k run_file_ops_def save_cache_ops_def take_map)
  also have "\<dots> = Some (concat (take k' (json_dump env c)))"
    using write_chunks [of "[]"] by simp
  finally show "run_file_ops content (take k (save_cache_ops env c)) =
      Some (concat (take (k - 1) (json_dump env c)))"
    by (simp add: k)
next
  show "cache_file (save_cache env w) = Some (concat (json_dump env (location_cache w)))"
    by (simp add: save_cache_def run_save_cache_ops)
next
  show "location_cache (save_cache env w) = location_cache w" by simp
next
  show "files (save_cache env w) = files w" by (simp add: save_cache_def)
qed

theorem save_cache_in_place_witness:
  "(0::nat) < 1
   \<and> run_file_ops (Some (concat (json_dump example_env old_cache)))
       (take 1 (save_cache_ops example_env grown_cache)) = Some []
   \<and> cache_file (save_cache example_env (empty_world\<lparr>location_cache := old_cache\<rparr>)) =
       Some (''{'' @ new_york @ ''}'')"
proof -
  note inst = save_cache_in_place
    [of "Some (concat (json_dump example_env old_cache))" example_env grown_cache
      "empty_world\<lparr>location_cache := old_cache\<rparr>"]
  from inst have "run_file_ops (Some (concat (json_dump example_env old_cache)))
       (take 1 (save_cache_ops example_env grown_cache)) =
      Some (concat (take (1 - 1) (json_dump example_env grown_cache)))"
    by (elim conjE allE [of _ 1]) simp
  then have 1: "run_file_ops (Some (concat (json_dump example_env old_cache)))
       (take 1 (save_cache_ops example_env grown_cache)) = Some []"
    by simp
  from inst have "cache_file (save_cache example_env (empty_world\<lparr>location_cache := old_cache\<rparr>)) =
      Some (concat (json_dump example_env
        (location_cache (empty_world\<lparr>location_cache := old_cache\<rparr>))))"
    by (elim conjE)
  then have 2: "cache_file (save_cache example_env (empty_world\<lparr>location_cache := old_cache\<rparr>)) =
      Some (''{'' @ new_york @ ''}'')"
    by (simp add: dump_old_cache)
  from 1 2 show ?thesis by simp
qed

section \<open>Properties of the destination directory\<close>

lemma split_new_york: "str_split new_york = [''New York'', ''New York'', ''United States'']"
  by (simp add: str_split_def new_york_def)

lemma strftime_march_15:
  "year dt = 2024 \<Longrightarrow> month dt = 3 \<Longrightarrow> day dt = 15 \<Longrightarrow> strftime dt ''%Y-%m-%d'' = ''2024-03-15''"
  by (simp add: strftime_directive_def pad2_def str_nat.simps digit_char_def)


lemma reverse_geocode_new_york:
  "fst (reverse_geocode example_env default_config empty_world 40.7128 (- 74.006)) = Some new_york"
  by (simp add: reverse_geocode_def is_cached_location_nearby_def
      example_env_def default_config_def empty_world_def parse_new_york Let_def new_york_def)

lemma pp_reverse_geocode_new_york:
  "fst (pp_reverse_geocode example_env default_config empty_world 40.7128 (- 74.006)) =
     Some ''New York, New York, United States''"
  using reverse_geocode_new_york
  by (simp add: pp_reverse_geocode_def split_beta example_env_def new_york_def)




text \<open>
  C1, as stated, fails: with \<open>group_by_city\<close> the place name is rendered with its parts
  in reverse order, country first. For the scenario of the claim the directory is
  \<open>/output/United States, New York, New York/2024-03-15\<close>.
\<close>

theorem new_york_destination_counterexample:
  "sort_by_location default_config \<and> sort_by_date default_config \<and> group_by_city default_config
   \<and> \<not> group_by_country default_config \<and> \<not> group_by_state default_config
   \<and> date_format default_config = ''%Y-%m-%d''
   \<and> parse_location (reverse example_env 0 (40.7128, - 74.006)) =
       Some ''New York, New York, United States''
   \<and> fst (resolve_output_path example_env default_config empty_world ''/output''
            (Some 40.7128) (Some (- 74.006)) (Some march_15)) =
       Inr (''/output/United States, New York, New York/2024-03-15'', True)
   \<and> fst (resolve_output_path example_env default_config empty_world ''/output''
            (Some 40.7128) (Some (- 74.006)) (Some march_15)) \<noteq>
       Inr (''/output/New York, New York, United States/2024-03-15'', True)"
proof -
  have geo: "pp_reverse_geocode example_env default_config empty_world 40.7128 (- 74.006) =
      (Some new_york,
       snd (reverse_geocode example_env default_config empty_world 40.7128 (- 74.006)))"
    using reverse_geocode_new_york
    by (simp add: pp_reverse_geocode_def split_beta example_env_def prod_eq_iff)
  have city: "apply_location_filters default_config (Some new_york) =
      Inr ''United States, New York, New York''"
    by (simp add: apply_location_filters_def split_new_york default_config_def)
  have dir: "create_output_path default_config ''/output'' ''United States, New York, New York''
      (Some march_15) = ''/output/United States, New York, New York/2024-03-15''"
    using strftime_march_15 [of march_15]
    by (simp add: create_output_path_def path_join_def default_config_def march_15_def)
  have valid: "validate_gps_coordinates (Some 40.7128) (Some (- 74.006))"
    by (simp add: validate_gps_coordinates_def)
  have res: "fst (resolve_output_path example_env default_config empty_world ''/output''
            (Some 40.7128) (Some (- 74.006)) (Some march_15)) =
       Inr (''/output/United States, New York, New York/2024-03-15'', True)"
    using geo city dir valid by (simp add: resolve_output_path_def)
  have "parse_location (reverse example_env 0 (40.7128, - 74.006)) = Some new_york"
    by (simp add: example_env_def parse_new_york)
  then show ?thesis
    unfolding res by (simp add: default_config_def new_york_def)
qed

text \<open>
  C1, amended: for a photo with valid coordinates that reverse-geocode to
  \<open>New York, New York, United States\<close> and the capture date 2024-03-15, with sorting by
  location and by date, grouping by city (not by country or state) and the date format
  \<open>%Y-%m-%d\<close>, the destination directory is
  \<open><output>/United States, New York, New York/2024-03-15\<close>.
\<close>

theorem new_york_destination:
  assumes "sort_by_location cfg" and "sort_by_date cfg" and "group_by_city cfg"
    and "\<not> group_by_country cfg" and "\<not> group_by_state cfg"
    and "date_format cfg = ''%Y-%m-%d''"
    and "validate_gps_coordinates (Some latitude) (Some longitude)"
    and "fst (pp_reverse_geocode env cfg w latitude longitude) =
           Some ''New York, New York, United States''"
    and "year dt = 2024" and "month dt = 3" and "day dt = 15"
    and "output_directory \<noteq> []" and "last output_directory \<noteq> CHR ''/''"
  shows "fst (resolve_output_path env cfg w output_directory (Some latitude) (Some longitude)
                (Some dt)) =
           Inr (output_directory @ ''/United States, New York, New York/2024-03-15'', True)"
proof -
  obtain w' where geo: "pp_reverse_geocode env cfg w latitude longitude = (Some new_york, w')"
    using assms(8) by (cases "pp_reverse_geocode env cfg w latitude longitude")
      (simp add: new_york_def)
  have city: "apply_location_filters cfg (Some new_york) =
      Inr ''United States, New York, New York''"
    using assms(3-5) by (simp add: apply_location_filters_def split_new_york)
  have "path_join output_directory ''United States, New York, New York'' =
      output_directory @ ''/United States, New York, New York''"
    using assms(12,13) by (simp add: path_join_def)
  then have "create_output_path cfg output_directory ''United States, New York, New York'' (Some dt) =
      output_directory @ ''/United States, New York, New York/2024-03-15''"
    using assms(1,2,6) strftime_march_15 [OF assms(9-11)]
    by (simp add: create_output_path_def path_join_def)
  with geo city assms(7) show ?thesis
    by (simp add: resolve_output_path_def)
qed

theorem new_york_destination_witness:
  "sort_by_location default_config \<and> sort_by_date default_config \<and> group_by_city default_config
   \<and> \<not> group_by_country default_config \<and> \<not> group_by_state default_config
   \<and> date_format default_config = ''%Y-%m-%d''
   \<and> validate_gps_coordinates (Some 40.7128) (Some (- 74.006))
   \<and> fst (pp_reverse_geocode example_env default_config empty_world 40.7128 (- 74.006)) =
       Some ''New York, New York, United States''
   \<and> year march_15 = 2024 \<and> month march_15 = 3 \<and> day march_15 = 15
   \<and> fst (resolve_output_path example_env default_config empty_world ''/output''
            (Some 40.7128) (Some (- 74.006)) (Some march_15)) =
       Inr (''/output'' @ ''/United States, New York, New York/2024-03-15'', True)"
proof -
  have cfg: "sort_by_location default_config" "sort_by_date default_config"
    "group_by_city default_config" "\<not> group_by_country default_config"
    "\<not> group_by_state default_config" "date_format default_config = ''%Y-%m-%d''"
    by (simp_all add: default_config_def)
  have valid: "validate_gps_coordinates (Some 40.7128) (Some (- 74.006))"
    by (simp add: validate_gps_coordinates_def)
  have dt: "year march_15 = 2024" "month march_15 = 3" "day march_15 = 15"
    by (simp_all add: march_15_def)
  have out: "''/output'' \<noteq> []" "last ''/output'' \<noteq> CHR ''/''" by simp_all
  note res = new_york_destination [OF cfg valid pp_reverse_geocode_new_york dt out]
  from cfg valid pp_reverse_geocode_new_york dt res show ?thesis by (intro conjI)
qed

text \<open>
  Coordinates the validity gate rejects: a missing latitude or longitude, and the point
  \<open>(0, 0)\<close>, which lies outside the box.
\<close>

lemma validate_gps_coordinates_absent:
  "\<not> validate_gps_coordinates None longitude"
  "\<not> validate_gps_coordinates latitude None"
  by (simp_all add: validate_gps_coordinates_def split: option.splits)

lemma validate_gps_coordinates_origin: "\<not> validate_gps_coordinates (Some 0) (Some 0)"
  by (simp add: validate_gps_coordinates_def)



section \<open>Properties of the batch\<close>

lemma new_york_image_coordinates:
  "get_gps_coordinates default_config new_york_image = (Some 40.7128, Some (- 74.006))"
  by (simp add: get_gps_coordinates_def new_york_image_def default_config_def
      convert_to_decimal_degrees_def)

lemma reverse_geocode_backend_error:
  "reverse_geocode failing_env default_config
     (empty_world\<lparr>files := [''/in/a.jpg'']\<rparr>) 40.7128 (- 74.006) =
   (None, empty_world\<lparr>files := [''/in/a.jpg''], backend_calls := 1\<rparr>)"
  by (simp add: reverse_geocode_def is_cached_location_nearby_def failing_env_def
      example_env_def default_config_def empty_world_def)

text \<open>
  What holds of the counters for every batch: one tuple is yielded per photo, the
  sortable and unsortable counts add up to the number of photos, and the processed count
  does not exceed it.
\<close>

lemma process_photo_counters:
  assumes "process_photo env cfg out n w cnt p = (event, cnt', w')"
  shows "sortable_photos cnt' + unsortable_photos cnt' =
           sortable_photos cnt + unsortable_photos cnt + 1
       \<and> sortable_photos cnt \<le> sortable_photos cnt'
       \<and> unsortable_photos cnt \<le> unsortable_photos cnt'
       \<and> processed_photos cnt \<le> processed_photos cnt'
       \<and> processed_photos cnt' \<le> processed_photos cnt + 1"
  using assms
  by (auto simp: process_photo_def Let_def split: option.splits prod.splits sum.splits if_splits)

lemma process_loop_events:
  "process_loop env cfg out n w cnt ps = (events, cnt', w') \<Longrightarrow>
   length events = length ps
   \<and> sortable_photos cnt' + unsortable_photos cnt' =
       sortable_photos cnt + unsortable_photos cnt + length ps
   \<and> processed_photos cnt' \<le> processed_photos cnt + length ps"
proof (induction ps arbitrary: w cnt events cnt' w')
  case Nil
  then show ?case by simp
next
  case (Cons p ps)
  obtain ev cnt1 w1 where step: "process_photo env cfg out n w cnt p = (ev, cnt1, w1)"
    by (cases "process_photo env cfg out n w cnt p") auto
  obtain evs cnt2 w2 where rest: "process_loop env cfg out n w1 cnt1 ps = (evs, cnt2, w2)"
    by (cases "process_loop env cfg out n w1 cnt1 ps") auto
  from Cons.prems step rest have res: "events = ev # evs" "cnt' = cnt2" by simp_all
  from Cons.IH [OF rest] process_photo_counters [OF step] res show ?case by simp
qed

lemma process_photos_one_event_per_photo:
  "process_photos env cfg w photo_paths out = (events, cnt, w') \<Longrightarrow>
   length events = length photo_paths
   \<and> sortable_photos cnt + unsortable_photos cnt = length photo_paths
   \<and> processed_photos cnt \<le> length photo_paths"
  unfolding process_photos_def by (drule process_loop_events) simp

text \<open>
  The processed value of the tuples can go down: a photo without readable EXIF data is
  yielded with \<open>processed_photos + 1\<close>, a photo whose classification raises next is
  yielded with \<open>processed_photos\<close>.
\<close>

lemma process_photos_processed_decreases:
  "fst (process_photos mixed_env default_config
     (empty_world\<lparr>files := [''/in/a.jpg'', ''/in/b.jpg'']\<rparr>)
     [''/in/a.jpg'', ''/in/b.jpg''] ''/output'') =
   [(1, 2, 0, 1, ''/in/a.jpg''), (0, 2, 0, 2, ''/in/b.jpg'')]"
proof -
  let ?w = "empty_world\<lparr>files := [''/in/a.jpg'', ''/in/b.jpg'']\<rparr>"
  let ?c0 = "\<lparr>processed_photos = 0, sortable_photos = 0, unsortable_photos = 0\<rparr>"
  let ?c1 = "\<lparr>processed_photos = 0, sortable_photos = 0, unsortable_photos = Suc 0\<rparr>"
  have a: "process_photo mixed_env default_config ''/output'' n ?w ?c0 ''/in/a.jpg'' =
      ((1, n, 0, 1, ''/in/a.jpg''), ?c1, ?w)" for n
    by (simp add: process_photo_def extract_exif_data_def mixed_env_def failing_env_def
        example_env_def empty_world_def)
  have exif: "extract_exif_data mixed_env ?w ''/in/b.jpg'' = Some new_york_image"
    by (simp add: extract_exif_data_def mixed_env_def failing_env_def example_env_def
        empty_world_def)
  have valid: "validate_gps_coordinates (Some 40.7128) (Some (- 74.006))"
    by (simp add: validate_gps_coordinates_def)
  have "reverse_geocode mixed_env default_config ?w 40.7128 (- 74.006) =
      (None, ?w\<lparr>backend_calls := 1\<rparr>)"
    by (simp add: reverse_geocode_def is_cached_location_nearby_def mixed_env_def
        failing_env_def example_env_def default_config_def empty_world_def)
  then have "pp_reverse_geocode mixed_env default_config ?w 40.7128 (- 74.006) =
      (None, ?w\<lparr>backend_calls := 1\<rparr>)"
    by (simp add: pp_reverse_geocode_def)
  with valid have "resolve_output_path mixed_env default_config ?w ''/output''
      (Some 40.7128) (Some (- 74.006)) (Some march_15) =
      (Inl AttributeError, ?w\<lparr>backend_calls := 1\<rparr>)"
    by (simp add: resolve_output_path_def apply_location_filters_def)
  with exif new_york_image_coordinates
  have b: "process_photo mixed_env default_config ''/output'' n ?w ?c1 ''/in/b.jpg'' =
      ((0, n, 0, 2, ''/in/b.jpg''),
       \<lparr>processed_photos = 0, sortable_photos = 0, unsortable_photos = 2\<rparr>,
       ?w\<lparr>backend_calls := 1\<rparr>)"
    for n by (simp add: process_photo_def new_york_image_def)
  show ?thesis by (simp add: process_photos_def a b)
qed

text \<open>
  C2 at a batch of two photos whose EXIF data cannot be read: each is yielded with
  \<open>processed_photos + 1\<close>, but the counter itself is never incremented on this branch.
  Both tuples report 1 processed photo of 2, and the final processed count is 0, not
  the total and not the sum of the sortable and unsortable counts.
\<close>

theorem process_photos_unreadable_exif:
  "process_photos example_env default_config
     (empty_world\<lparr>files := [''/in/a.jpg'', ''/in/b.jpg'']\<rparr>)
     [''/in/a.jpg'', ''/in/b.jpg''] ''/output'' =
   ([(1, 2, 0, 1, ''/in/a.jpg''), (1, 2, 0, 2, ''/in/b.jpg'')],
    \<lparr>processed_photos = 0, sortable_photos = 0, unsortable_photos = 2\<rparr>,
    empty_world\<lparr>files := [''/in/a.jpg'', ''/in/b.jpg'']\<rparr>)"
  by (simp add: process_photos_def process_photo_def extract_exif_data_def example_env_def
      empty_world_def)

text \<open>
  C8 at a photo with valid coordinates whose backend call fails:
  \<^verbatim>\<open>reverse_geocode\<close> returns \<^verbatim>\<open>None\<close> and the batch goes on, but
  \<^verbatim>\<open>_apply_location_filters(None)\<close> raises, so the photo is counted as unsortable
  without being copied or moved: the files are as before.
\<close>

theorem process_photos_backend_error:
  "fst (reverse_geocode failing_env default_config
          (empty_world\<lparr>files := [''/in/a.jpg'']\<rparr>) 40.7128 (- 74.006)) = None
   \<and> process_photos failing_env default_config
        (empty_world\<lparr>files := [''/in/a.jpg'']\<rparr>) [''/in/a.jpg''] ''/output'' =
      ([(0, 1, 0, 1, ''/in/a.jpg'')],
       \<lparr>processed_photos = 0, sortable_photos = 0, unsortable_photos = 1\<rparr>,
       empty_world\<lparr>files := [''/in/a.jpg''], backend_calls := 1\<rparr>)"
proof -
  let ?w = "empty_world\<lparr>files := [''/in/a.jpg'']\<rparr>"
  have exif: "extract_exif_data failing_env ?w ''/in/a.jpg'' = Some new_york_image"
    by (simp add: extract_exif_data_def failing_env_def example_env_def empty_world_def)
  have valid: "validate_gps_coordinates (Some 40.7128) (Some (- 74.006))"
    by (simp add: validate_gps_coordinates_def)
  have "pp_reverse_geocode failing_env default_config ?w 40.7128 (- 74.006) =
      (None, ?w\<lparr>backend_calls := 1\<rparr>)"
    using reverse_geocode_backend_error by (simp add: pp_reverse_geocode_def)
  with valid have "resolve_output_path failing_env default_config ?w ''/output''
      (Some 40.7128) (Some (- 74.006)) (Some march_15) =
      (Inl AttributeError, ?w\<lparr>backend_calls := 1\<rparr>)"
    by (simp add: resolve_output_path_def apply_location_filters_def)
  with exif new_york_image_coordinates
  have "process_photo failing_env default_config ''/output'' 1 ?w
      \<lparr>processed_photos = 0, sortable_photos = 0, unsortable_photos = 0\<rparr> ''/in/a.jpg'' =
      ((0, 1, 0, 1, ''/in/a.jpg''),
       \<lparr>processed_photos = 0, sortable_photos = 0, unsortable_photos = 1\<rparr>,
       ?w\<lparr>backend_calls := 1\<rparr>)"
    by (simp add: process_photo_def new_york_image_def)
  then show ?thesis
    using reverse_geocode_backend_error by (simp add: process_photos_def)
qed

end
